theory Spec2Isabelle
  imports Main
begin

section \<open>Python values, exceptions and callable objects\<close>

text \<open>
  The exceptions the modelled code can surface. \<open>ImproperlyConfiguredException\<close> is the
  configuration error of \<open>litestar.exceptions\<close>; \<open>TypeError\<close> is what Python raises when
  a value that is not awaitable is awaited; \<open>RaisedByCallee\<close> stands for any exception raised
  by user code (a dependency, a guard, a handler function, a collaborator).
\<close>

datatype exn =
    ImproperlyConfiguredException string
  | TypeError string
  | RaisedByCallee string

text \<open>
  Python values as far as the modelled code sees them. \<open>PyObj i\<close> is any other object,
  known by its identity. \<open>Empty_sentinel\<close> is the class object \<open>litestar.types.Empty\<close>,
  a first-class Python object like any other; \<open>Awaitable r\<close> is an awaitable that
  produces \<open>r\<close> when awaited.
\<close>

datatype pyval =
    PyNone
  | PyInt int
  | PyStr string
  | PyObj nat
  | Empty_sentinel
  | Awaitable "exn + pyval"

type_synonym kwargs = "(string \<times> pyval) list"

type_synonym pyref = nat

text \<open>
  A Python object offered as a dependency, described by what the code observes of it:
  its identity, the answers of \<open>callable\<close>, \<open>inspect.isclass\<close>,
  \<open>inspect.isgeneratorfunction\<close> and \<open>inspect.isasyncgenfunction\<close> on the object and
  on its \<open>__call__\<close> attribute, the answer of \<open>litestar.utils.predicates.is_async_callable\<close>
  (defined outside the modules modelled here, so its answer is a field of the object), and what
  calling the object with keyword arguments returns or raises. The result of a call
  depends on the keyword arguments only: dependencies are pure.
\<close>

record callable_obj =
  ident :: pyref
  callable :: bool
  isclass :: bool
  isgeneratorfunction :: bool
  isasyncgenfunction :: bool
  call_isgeneratorfunction :: bool
  call_isasyncgenfunction :: bool
  is_async_callable :: bool
  on_call :: "kwargs \<Rightarrow> exn + pyval"

text \<open>The \<open>await\<close> expression: an awaitable gives its outcome, anything else is a TypeError.\<close>

fun await :: "pyval \<Rightarrow> exn + pyval" where
  "await (Awaitable r) = r"
| "await v = Inl (TypeError ''object can't be used in 'await' expression'')"

text \<open>
  Modelled from the spec: \<open>litestar.utils.ensure_async_callable\<close> is defined outside the
  modules modelled here. The spec describes it as wrapping the callable "in an adapter that runs it
  asynchronously on an offloaded thread" and that "does not alter the value it produces".
  The adapter is a new object (identity \<open>wid\<close>), it is an asynchronous callable, and calling it
  gives an awaitable that produces what the wrapped callable produces.
\<close>

definition thread_adapter :: "pyref \<Rightarrow> callable_obj \<Rightarrow> callable_obj" where
  "thread_adapter wid fn =
     \<lparr> ident = wid, callable = True, isclass = False,
       isgeneratorfunction = False, isasyncgenfunction = False,
       call_isgeneratorfunction = False, call_isasyncgenfunction = False,
       is_async_callable = True,
       on_call = (\<lambda>kw. Inr (Awaitable (on_call fn kw))) \<rparr>"

section \<open>The provider: \<open>litestar.di.Provide\<close>\<close>

record ParsedSignature =
  parameters :: "string \<rightharpoonup> pyref"
  return_type_is_subclass_of_NoneType :: bool

record Provide =
  dependency :: callable_obj
  has_async_generator_dependency :: bool
  has_sync_callable :: bool
  has_sync_generator_dependency :: bool
  parsed_fn_signature :: "ParsedSignature option"
  signature_model :: "pyref option"
  sync_to_thread :: bool
  use_cache :: bool
  value_slot :: pyval

datatype warning =
    Warn_sync_to_thread_with_generator
  | Warn_sync_to_thread_with_async_callable
  | Warn_implicit_sync_to_thread

text \<open>
  The classification computed at the start of \<open>Provide.__init__\<close>: for a class the
  generator tests look at the class's \<open>__call__\<close>, otherwise at the object itself.
\<close>

definition sync_generator_dependency :: "callable_obj \<Rightarrow> bool" where
  "sync_generator_dependency dep =
     (if \<not> isclass dep then isgeneratorfunction dep else call_isgeneratorfunction dep)"

definition async_generator_dependency :: "callable_obj \<Rightarrow> bool" where
  "async_generator_dependency dep =
     (if \<not> isclass dep then isasyncgenfunction dep else call_isasyncgenfunction dep)"

definition has_generator_dependency :: "callable_obj \<Rightarrow> bool" where
  "has_generator_dependency dep =
     (sync_generator_dependency dep \<or> async_generator_dependency dep)"

definition sync_callable :: "callable_obj \<Rightarrow> bool" where
  "sync_callable dep = (isclass dep \<or> \<not> is_async_callable dep)"

definition init_warnings :: "callable_obj \<Rightarrow> bool option \<Rightarrow> warning list" where
  "init_warnings dep stt =
     (if stt \<noteq> None
      then (if has_generator_dependency dep then [Warn_sync_to_thread_with_generator]
            else if \<not> sync_callable dep then [Warn_sync_to_thread_with_async_callable]
            else [])
      else if sync_callable dep \<and> \<not> has_generator_dependency dep
           then [Warn_implicit_sync_to_thread]
           else [])"

text \<open>
  \<open>Provide.__init__\<close>. The first argument is \<open>ensure_async_callable\<close>, a collaborator defined
  outside the modules modelled here. The result is the exception raised, or the new
  provider together with the warnings emitted. \<open>sync_to_thread\<close> is \<open>bool | None\<close>;
  it is truthy exactly when it is \<open>Some True\<close>.
\<close>

definition Provide_init ::
  "(callable_obj \<Rightarrow> callable_obj) \<Rightarrow> callable_obj \<Rightarrow> bool \<Rightarrow> bool option
     \<Rightarrow> exn + (Provide \<times> warning list)" where
  "Provide_init ensure_async_callable dep cache stt =
     (if \<not> callable dep
      then Inl (ImproperlyConfiguredException ''Provider dependency must be a callable value'')
      else if has_generator_dependency dep \<and> cache
      then Inl (ImproperlyConfiguredException
             ''Cannot cache generator dependency, consider using Lifespan Context instead.'')
      else Inr (\<lparr> dependency = (if stt = Some True \<and> sync_callable dep
                                 then ensure_async_callable dep else dep),
                  has_async_generator_dependency = async_generator_dependency dep,
                  has_sync_callable = (if stt = Some True \<and> sync_callable dep
                                       then False else sync_callable dep),
                  has_sync_generator_dependency = sync_generator_dependency dep,
                  parsed_fn_signature = None,
                  signature_model = None,
                  sync_to_thread = (stt = Some True),
                  use_cache = cache,
                  value_slot = Empty_sentinel \<rparr>,
                init_warnings dep stt))"

text \<open>
  \<open>Provide.__call__\<close>. The state is the provider and the log of the invocations of the
  wrapped dependency object (the keyword arguments of each, oldest first): the
  call-counter of the dependency. The result is the value returned or the exception
  propagated, and the new state. \<open>invoke_dependency\<close> is the invocation itself: a plain
  call for a synchronous callable, a call whose result is awaited otherwise.
\<close>

type_synonym call_log = "kwargs list"

definition invoke_dependency :: "Provide \<Rightarrow> kwargs \<Rightarrow> exn + pyval" where
  "invoke_dependency self kw =
     (if has_sync_callable self then on_call (dependency self) kw
      else (case on_call (dependency self) kw of Inl e \<Rightarrow> Inl e | Inr a \<Rightarrow> await a))"

fun Provide_call ::
  "kwargs \<Rightarrow> Provide \<times> call_log \<Rightarrow> (exn + pyval) \<times> (Provide \<times> call_log)" where
  "Provide_call kw (self, log) =
     (if use_cache self \<and> value_slot self \<noteq> Empty_sentinel
      then (Inr (value_slot self), (self, log))
      else (case invoke_dependency self kw of
              Inl e \<Rightarrow> (Inl e, (self, log @ [kw]))
            | Inr v \<Rightarrow> (Inr v, ((if use_cache self then self\<lparr>value_slot := v\<rparr> else self),
                                  log @ [kw]))))"

text \<open>
  A sequence of invocations, one per element of the list; an invocation that raises
  leaves the provider to the next one.
\<close>

fun Provide_calls ::
  "kwargs list \<Rightarrow> Provide \<times> call_log \<Rightarrow> (exn + pyval) list \<times> (Provide \<times> call_log)" where
  "Provide_calls [] s = ([], s)"
| "Provide_calls (kw # kws) s =
     (case Provide_call kw s of (r, s') \<Rightarrow>
        (case Provide_calls kws s' of (rs, s'') \<Rightarrow> (r # rs, s'')))"

text \<open>
  \<open>Provide.__eq__\<close>. A provider is given with its address; the other operand is a provider
  (with its address) or an object of another class. \<open>==\<close> on the wrapped dependency objects
  is the default comparison of functions and classes, identity; \<open>==\<close> on the values held in
  the slot is the equality of the modelled values.
\<close>

datatype pyobject = ProvideObj pyref Provide | OtherObj pyref

fun Provide_eq :: "pyref \<times> Provide \<Rightarrow> pyobject \<Rightarrow> bool" where
  "Provide_eq (a, self) (ProvideObj b other) =
     (b = a \<or>
      (ident (dependency other) = ident (dependency self)
       \<and> use_cache other = use_cache self
       \<and> value_slot other = value_slot self))"
| "Provide_eq (a, self) (OtherObj b) = False"

text \<open>
  The equality as the specification words it: the same instance, or the same dependency
  object, the same cache flag and, if both have resolved a cached value, the same value.
\<close>

definition spec_Provide_eq :: "pyref \<times> Provide \<Rightarrow> pyref \<times> Provide \<Rightarrow> bool" where
  "spec_Provide_eq x y =
     (fst x = fst y \<or>
      (ident (dependency (snd x)) = ident (dependency (snd y))
       \<and> use_cache (snd x) = use_cache (snd y)
       \<and> (value_slot (snd x) \<noteq> Empty_sentinel \<and> value_slot (snd y) \<noteq> Empty_sentinel
            \<longrightarrow> value_slot (snd x) = value_slot (snd y))))"

subsection \<open>\<open>Provide.finalize\<close>\<close>

text \<open>
  The collaborators of \<open>finalize\<close> are defined outside the modules modelled here and are
  parameters of the model: \<open>unwrap_partial\<close>, \<open>ParsedSignature.from_signature\<close>,
  \<open>ParsedSignature.from_fn\<close> and \<open>SignatureModel.create\<close>, each a pure function that
  returns its result or raises. A plugin of the registry answers \<open>isinstance(p, DIPlugin)\<close>,
  \<open>has_typed_init\<close> and \<open>get_typed_init\<close>.
\<close>

record plugin_obj =
  isinstance_DIPlugin :: bool
  has_typed_init :: "callable_obj \<Rightarrow> bool"
  get_typed_init :: "callable_obj \<Rightarrow> pyref \<times> pyref"

record collaborators =
  unwrap_partial :: "callable_obj \<Rightarrow> callable_obj"
  from_signature :: "pyref \<Rightarrow> pyref \<Rightarrow> exn + ParsedSignature"
  from_fn :: "callable_obj \<Rightarrow> (string \<rightharpoonup> pyref) \<Rightarrow> exn + ParsedSignature"
  create :: "string set \<Rightarrow> callable_obj \<Rightarrow> ParsedSignature option \<Rightarrow> pyref option
               \<Rightarrow> pyref list \<Rightarrow> exn + pyref"

text \<open>The computations \<open>finalize\<close> can start, logged in the order they happen.\<close>

datatype computation =
    Called_unwrap_partial
  | Called_get_typed_init
  | Called_from_signature
  | Called_from_fn
  | Called_create

text \<open>The first block of \<open>finalize\<close>, run when \<open>parsed_fn_signature\<close> is \<open>None\<close>.\<close>

definition parse_dependency_signature ::
  "collaborators \<Rightarrow> plugin_obj list option \<Rightarrow> (string \<rightharpoonup> pyref) \<Rightarrow> Provide
     \<Rightarrow> (exn + ParsedSignature) \<times> computation list" where
  "parse_dependency_signature c plugins signature_namespace self =
     (let dep = unwrap_partial c (dependency self);
          plugin = (case plugins of
                      None \<Rightarrow> None
                    | Some ps \<Rightarrow> find (\<lambda>p. isinstance_DIPlugin p \<and> has_typed_init p dep) ps)
      in case plugin of
           Some p \<Rightarrow>
             (from_signature c (fst (get_typed_init p dep)) (snd (get_typed_init p dep)),
              [Called_unwrap_partial, Called_get_typed_init, Called_from_signature])
         | None \<Rightarrow>
             (from_fn c dep signature_namespace, [Called_unwrap_partial, Called_from_fn]))"

text \<open>The second block of \<open>finalize\<close>, on the provider the first block leaves.\<close>

definition create_signature_model ::
  "collaborators \<Rightarrow> string set \<Rightarrow> pyref option \<Rightarrow> pyref list \<Rightarrow> Provide \<times> computation list
     \<Rightarrow> exn option \<times> (Provide \<times> computation list)" where
  "create_signature_model c dependency_keys data_dto type_decoders s =
     (if signature_model (fst s) = None
      then (case create c dependency_keys (dependency (fst s)) (parsed_fn_signature (fst s))
                   data_dto type_decoders of
              Inl e \<Rightarrow> (Some e, (fst s, snd s @ [Called_create]))
            | Inr m \<Rightarrow> (None, ((fst s)\<lparr>signature_model := Some m\<rparr>, snd s @ [Called_create])))
      else (None, s))"

text \<open>
  \<open>finalize\<close>: the state is the provider and the log of the computations started so far;
  the result is the exception raised, if any, and the state left behind. An exception
  of the first block leaves the second block undone.
\<close>

type_synonym finalize_kwargs =
  "plugin_obj list option \<times> (string \<rightharpoonup> pyref) \<times> string set \<times> pyref option \<times> pyref list"

fun finalize ::
  "collaborators \<Rightarrow> finalize_kwargs \<Rightarrow> Provide \<times> computation list
     \<Rightarrow> exn option \<times> (Provide \<times> computation list)" where
  "finalize c (plugins, signature_namespace, dependency_keys, data_dto, type_decoders) (self, log) =
     (if parsed_fn_signature self = None
      then (case parse_dependency_signature c plugins signature_namespace self of
              (Inl e, started) \<Rightarrow> (Some e, (self, log @ started))
            | (Inr sig, started) \<Rightarrow>
                create_signature_model c dependency_keys data_dto type_decoders
                  (self\<lparr>parsed_fn_signature := Some sig\<rparr>, log @ started))
      else create_signature_model c dependency_keys data_dto type_decoders (self, log))"

text \<open>Any number of further calls, each with its own arguments.\<close>

fun finalize_all ::
  "collaborators \<Rightarrow> finalize_kwargs list \<Rightarrow> Provide \<times> computation list
     \<Rightarrow> exn option list \<times> (Provide \<times> computation list)" where
  "finalize_all c [] s = ([], s)"
| "finalize_all c (a # as) s =
     (case finalize c a s of (r, s') \<Rightarrow>
        (case finalize_all c as s' of (rs, s'') \<Rightarrow> (r # rs, s'')))"

subsection \<open>Typical dependency objects\<close>

text \<open>
  How the objects a user passes answer the observations: a function defined with
  \<open>def\<close>, with \<open>async def\<close>, a generator function, an asynchronous generator function,
  and a class, given the kind of its \<open>__call__\<close>. The \<open>__call__\<close> of a function object is
  a method wrapper, which is no generator function; instantiating a class is a
  synchronous call.
\<close>

definition plain_function :: "pyref \<Rightarrow> (kwargs \<Rightarrow> exn + pyval) \<Rightarrow> callable_obj" where
  "plain_function i body =
     \<lparr> ident = i, callable = True, isclass = False,
       isgeneratorfunction = False, isasyncgenfunction = False,
       call_isgeneratorfunction = False, call_isasyncgenfunction = False,
       is_async_callable = False, on_call = body \<rparr>"

definition coroutine_function :: "pyref \<Rightarrow> (kwargs \<Rightarrow> exn + pyval) \<Rightarrow> callable_obj" where
  "coroutine_function i body =
     \<lparr> ident = i, callable = True, isclass = False,
       isgeneratorfunction = False, isasyncgenfunction = False,
       call_isgeneratorfunction = False, call_isasyncgenfunction = False,
       is_async_callable = True, on_call = (\<lambda>kw. Inr (Awaitable (body kw))) \<rparr>"

definition generator_function :: "pyref \<Rightarrow> (kwargs \<Rightarrow> exn + pyval) \<Rightarrow> callable_obj" where
  "generator_function i body =
     \<lparr> ident = i, callable = True, isclass = False,
       isgeneratorfunction = True, isasyncgenfunction = False,
       call_isgeneratorfunction = False, call_isasyncgenfunction = False,
       is_async_callable = False, on_call = body \<rparr>"

definition async_generator_function :: "pyref \<Rightarrow> (kwargs \<Rightarrow> exn + pyval) \<Rightarrow> callable_obj" where
  "async_generator_function i body =
     \<lparr> ident = i, callable = True, isclass = False,
       isgeneratorfunction = False, isasyncgenfunction = True,
       call_isgeneratorfunction = False, call_isasyncgenfunction = False,
       is_async_callable = False, on_call = body \<rparr>"

datatype call_kind = Call_plain | Call_generator | Call_coroutine | Call_async_generator

definition class_object :: "pyref \<Rightarrow> call_kind \<Rightarrow> (kwargs \<Rightarrow> exn + pyval) \<Rightarrow> callable_obj" where
  "class_object i k new =
     \<lparr> ident = i, callable = True, isclass = True,
       isgeneratorfunction = False, isasyncgenfunction = False,
       call_isgeneratorfunction = (k = Call_generator),
       call_isasyncgenfunction = (k = Call_async_generator),
       is_async_callable = (k = Call_coroutine), on_call = new \<rparr>"

section \<open>The ASGI route handler: \<open>litestar.handlers.asgi_handlers\<close>\<close>

record ASGIConnection =
  scope :: pyval
  receive :: pyval
  send :: pyval

text \<open>A guard looks at the connection and passes (\<open>None\<close>) or raises.\<close>

type_synonym guard = "ASGIConnection \<Rightarrow> exn option"

datatype exception_key = Status_code int | Exception_type string

text \<open>
  The enclosing scope of a merge, a \<open>Controller\<close> or a \<open>Router\<close>, with the attributes
  \<open>merge\<close> reads. An attribute the code guards with \<open>or\<close> may be \<open>None\<close>;
  \<open>signature_types\<close> is read with \<open>getattr(other, "signature_types", None)\<close>.
\<close>

record Router =
  path :: string
  dependencies :: "(string \<rightharpoonup> pyref) option"
  dto :: pyval
  return_dto :: pyval
  exception_handlers :: "(exception_key \<rightharpoonup> pyref) option"
  guards :: "guard list option"
  middleware :: "pyref list option"
  opt :: "(string \<rightharpoonup> pyval) option"
  signature_namespace :: "string \<rightharpoonup> pyref"
  signature_types :: "pyref list option"
  type_decoders :: "pyref list option"
  type_encoders :: "(string \<rightharpoonup> pyref) option"
  parameters :: "string \<rightharpoonup> pyref"

record ASGIRouteHandler =
  paths :: "string list"
  fn :: callable_obj
  dependencies :: "string \<rightharpoonup> pyref"
  dto :: pyval
  return_dto :: pyval
  exception_handlers :: "exception_key \<rightharpoonup> pyref"
  guards :: "guard list"
  middleware :: "pyref list"
  name :: "string option"
  opt :: "string \<rightharpoonup> pyval"
  signature_namespace :: "string \<rightharpoonup> pyref"
  signature_types :: "pyref list option"
  type_decoders :: "pyref list"
  type_encoders :: "string \<rightharpoonup> pyref"
  parameters :: "string \<rightharpoonup> pyref"
  is_mount :: bool

text \<open>
  Modelled from the spec: the constructor of the handler delegates to
  \<open>BaseRouteHandler.__init__\<close>, which is defined outside the modules modelled here. The spec
  says it "takes path fragment(s) (default \<open>/\<close> when omitted)" and the configuration
  of the handler; each argument becomes the attribute of the same name.
\<close>

definition ASGIRouteHandler_init ::
  "string list option \<Rightarrow> callable_obj \<Rightarrow> (string \<rightharpoonup> pyref) \<Rightarrow> pyval \<Rightarrow> pyval
     \<Rightarrow> (exception_key \<rightharpoonup> pyref) \<Rightarrow> guard list \<Rightarrow> pyref list \<Rightarrow> string option
     \<Rightarrow> (string \<rightharpoonup> pyval) \<Rightarrow> (string \<rightharpoonup> pyref) \<Rightarrow> pyref list option \<Rightarrow> pyref list
     \<Rightarrow> (string \<rightharpoonup> pyref) \<Rightarrow> (string \<rightharpoonup> pyref) \<Rightarrow> bool \<Rightarrow> ASGIRouteHandler" where
  "ASGIRouteHandler_init a_path a_fn a_dependencies a_dto a_return_dto a_exception_handlers
       a_guards a_middleware a_name a_opt a_signature_namespace a_signature_types
       a_type_decoders a_type_encoders a_parameters a_is_mount =
     \<lparr> paths = (case a_path of None \<Rightarrow> [''/''] | Some ps \<Rightarrow> ps),
       fn = a_fn,
       dependencies = a_dependencies,
       dto = a_dto,
       return_dto = a_return_dto,
       exception_handlers = a_exception_handlers,
       guards = a_guards,
       middleware = a_middleware,
       name = a_name,
       opt = a_opt,
       signature_namespace = a_signature_namespace,
       signature_types = a_signature_types,
       type_decoders = a_type_decoders,
       type_encoders = a_type_encoders,
       parameters = a_parameters,
       is_mount = a_is_mount \<rparr>"

text \<open>The Python idioms \<open>x or {}\<close> and \<open>x or []\<close> on an attribute that may be \<open>None\<close>.\<close>

definition or_empty_dict :: "('k \<rightharpoonup> 'v) option \<Rightarrow> ('k \<rightharpoonup> 'v)" where
  "or_empty_dict x = (case x of None \<Rightarrow> Map.empty | Some m \<Rightarrow> m)"

definition or_empty_list :: "'a list option \<Rightarrow> 'a list" where
  "or_empty_list x = (case x of None \<Rightarrow> [] | Some xs \<Rightarrow> xs)"

text \<open>
  \<open>ASGIRouteHandler.merge\<close>. \<open>join_paths\<close> and \<open>value_or_default\<close> are defined outside the
  modules modelled here and are parameters. A dictionary display \<open>{**a, **b}\<close> is the map
  \<open>a ++ b\<close>, where the entries of \<open>b\<close> override those of \<open>a\<close>. The handler's own
  \<open>opt\<close> is a dictionary, for which \<open>self.opt or {}\<close> is the dictionary itself.
\<close>

definition merge ::
  "(string list \<Rightarrow> string) \<Rightarrow> (pyval \<Rightarrow> pyval \<Rightarrow> pyval) \<Rightarrow> ASGIRouteHandler \<Rightarrow> Router
     \<Rightarrow> ASGIRouteHandler" where
  "merge join_paths value_or_default self other =
     ASGIRouteHandler_init
       (Some (map (\<lambda>p. join_paths [Router.path other, p]) (paths self)))
       (fn self)
       (or_empty_dict (Router.dependencies other) ++ ASGIRouteHandler.dependencies self)
       (value_or_default (ASGIRouteHandler.dto self) (Router.dto other))
       (value_or_default (ASGIRouteHandler.return_dto self) (Router.return_dto other))
       (or_empty_dict (Router.exception_handlers other) ++ ASGIRouteHandler.exception_handlers self)
       (or_empty_list (Router.guards other) @ ASGIRouteHandler.guards self)
       (or_empty_list (Router.middleware other) @ ASGIRouteHandler.middleware self)
       (name self)
       (or_empty_dict (Router.opt other) ++ ASGIRouteHandler.opt self)
       (Router.signature_namespace other ++ ASGIRouteHandler.signature_namespace self)
       (Router.signature_types other)
       (or_empty_list (Router.type_decoders other) @ ASGIRouteHandler.type_decoders self)
       (or_empty_dict (Router.type_encoders other) ++ ASGIRouteHandler.type_encoders self)
       (Router.parameters other ++ ASGIRouteHandler.parameters self)
       (is_mount self)"

text \<open>
  The objects of an application live in a heap; \<open>merge\<close> reads the handler and the
  scope it is given and allocates the handler it returns.
\<close>

datatype heap_object = Handler_object ASGIRouteHandler | Scope_object Router

record heap =
  objects :: "pyref \<rightharpoonup> heap_object"
  next_free :: pyref

definition merge_on_heap ::
  "(string list \<Rightarrow> string) \<Rightarrow> (pyval \<Rightarrow> pyval \<Rightarrow> pyval) \<Rightarrow> pyref \<Rightarrow> pyref \<Rightarrow> heap
     \<Rightarrow> (pyref \<times> heap) option" where
  "merge_on_heap join_paths value_or_default self_ref other_ref h =
     (case objects h self_ref of
        Some (Handler_object self) \<Rightarrow>
          (case objects h other_ref of
             Some (Scope_object other) \<Rightarrow>
               Some (next_free h,
                     h\<lparr> objects := (objects h)(next_free h \<mapsto>
                                      Handler_object (merge join_paths value_or_default self other)),
                        next_free := Suc (next_free h) \<rparr>)
           | _ \<Rightarrow> None)
      | _ \<Rightarrow> None)"

text \<open>
  \<open>ASGIRouteHandler._validate_handler_function\<close>. The first argument is the outcome of
  \<open>super()._validate_handler_function()\<close>, the second the value of the property
  \<open>self.parsed_fn_signature\<close>; both come from the base class, which is defined outside the
  modules modelled here. The three checks are in the order of the source; the messages
  are written without their inner quotation marks.
\<close>

definition validate_handler_function ::
  "exn option \<Rightarrow> ParsedSignature \<Rightarrow> ASGIRouteHandler \<Rightarrow> exn option" where
  "validate_handler_function base_outcome sig self =
     (case base_outcome of
        Some e \<Rightarrow> Some e
      | None \<Rightarrow>
          if \<not> return_type_is_subclass_of_NoneType sig
          then Some (ImproperlyConfiguredException ''ASGI handler functions should return None'')
          else if list_ex (\<lambda>key. ParsedSignature.parameters sig key = None)
                    [''scope'', ''send'', ''receive'']
          then Some (ImproperlyConfiguredException
                 ''ASGI handler functions should define scope, send and receive arguments'')
          else if \<not> is_async_callable (fn self)
          then Some (ImproperlyConfiguredException
                 ''Functions decorated with asgi must be async functions'')
          else None)"







text \<open>
  A heap is well formed when every allocated address lies below the next free one, so
  that an allocation never reuses the address of a live object.
\<close>

definition heap_ok :: "heap \<Rightarrow> bool" where
  "heap_ok h = (\<forall>r \<in> dom (objects h). r < next_free h)"

section \<open>Example objects\<close>

text \<open>
  Concrete inputs on which the theorems below are instantiated: a function body that
  returns a fixed value, a function that returns 5, a \<open>value_or_default\<close> that replaces the
  sentinel by the default, the provider that \<open>Provide(dep, use_cache=c)\<close> gives for a plain
  function or a class with a plain \<open>__call__\<close>, collaborators of \<open>finalize\<close> that always
  succeed, a child handler, a parent router, a heap that holds both, and the signature of
  \<open>async def app(scope, receive, send) -> None\<close>.
\<close>

definition returns :: "pyval \<Rightarrow> kwargs \<Rightarrow> exn + pyval" where
  "returns v kw = Inr v"

definition five :: callable_obj where
  "five = plain_function 1 (returns (PyInt 5))"

definition default_if_empty :: "pyval \<Rightarrow> pyval \<Rightarrow> pyval" where
  "default_if_empty v d = (if v = Empty_sentinel then d else v)"

definition fresh_provider :: "callable_obj \<Rightarrow> bool \<Rightarrow> Provide" where
  "fresh_provider dep c =
     \<lparr> dependency = dep,
       has_async_generator_dependency = False,
       has_sync_callable = True,
       has_sync_generator_dependency = False,
       parsed_fn_signature = None,
       signature_model = None,
       sync_to_thread = False,
       use_cache = c,
       value_slot = Empty_sentinel \<rparr>"

definition stub_collaborators :: collaborators where
  "stub_collaborators =
     \<lparr> unwrap_partial = (\<lambda>d. d),
       from_signature = (\<lambda>sig hints. Inr \<lparr> ParsedSignature.parameters = Map.empty,
                                            return_type_is_subclass_of_NoneType = False \<rparr>),
       from_fn = (\<lambda>d ns. Inr \<lparr> ParsedSignature.parameters = ns,
                                return_type_is_subclass_of_NoneType = False \<rparr>),
       create = (\<lambda>keys d sig data decoders. Inr 42) \<rparr>"

definition no_kwargs :: finalize_kwargs where
  "no_kwargs = (None, Map.empty, {}, None, [])"

definition asgi_signature :: ParsedSignature where
  "asgi_signature =
     \<lparr> ParsedSignature.parameters = [''scope'' \<mapsto> 1, ''receive'' \<mapsto> 2, ''send'' \<mapsto> 3],
       return_type_is_subclass_of_NoneType = True \<rparr>"

definition example_handler :: "callable_obj \<Rightarrow> guard list \<Rightarrow> ASGIRouteHandler" where
  "example_handler f gs =
     ASGIRouteHandler_init (Some [''/child'']) f [''db'' \<mapsto> 1] Empty_sentinel Empty_sentinel
       Map.empty gs [20] None [''tag'' \<mapsto> PyStr ''child''] Map.empty None [30] Map.empty
       Map.empty False"

definition example_router :: Router where
  "example_router =
     \<lparr> Router.path = ''/parent'',
       Router.dependencies = Some [''db'' \<mapsto> 2, ''cache'' \<mapsto> 3],
       Router.dto = PyNone,
       Router.return_dto = PyNone,
       Router.exception_handlers = None,
       Router.guards = None,
       Router.middleware = Some [10],
       Router.opt = Some [''tag'' \<mapsto> PyStr ''parent''],
       Router.signature_namespace = Map.empty,
       Router.signature_types = None,
       Router.type_decoders = None,
       Router.type_encoders = None,
       Router.parameters = Map.empty \<rparr>"

definition example_heap :: "ASGIRouteHandler \<Rightarrow> heap" where
  "example_heap child =
     \<lparr> objects = [0 \<mapsto> Handler_object child, 1 \<mapsto> Scope_object example_router],
       next_free = 2 \<rparr>"

definition allow :: guard where
  "allow connection = None"



section \<open>Properties of the provider\<close>

subsection \<open>Construction\<close>

lemma Provide_init_Inr:
  "Provide_init w dep cache stt = Inr (p, ws) \<Longrightarrow>
     callable dep \<and> \<not> (has_generator_dependency dep \<and> cache)
     \<and> p = \<lparr> dependency = (if stt = Some True \<and> sync_callable dep then w dep else dep),
            has_async_generator_dependency = async_generator_dependency dep,
            has_sync_callable = (if stt = Some True \<and> sync_callable dep then False
                                 else sync_callable dep),
            has_sync_generator_dependency = sync_generator_dependency dep,
            parsed_fn_signature = None, signature_model = None,
            sync_to_thread = (stt = Some True), use_cache = cache,
            value_slot = Empty_sentinel \<rparr>
     \<and> ws = init_warnings dep stt"
  by (auto simp: Provide_init_def split: if_splits)

lemma Provide_init_fields:
  assumes "Provide_init w dep cache stt = Inr (p, ws)"
  shows "use_cache p = cache" and "value_slot p = Empty_sentinel"
    and "Provide.parsed_fn_signature p = None" and "signature_model p = None"
  using Provide_init_Inr [OF assms] by simp_all

lemma plain_function_init:
  "Provide_init w (plain_function i body) c None
     = Inr (fresh_provider (plain_function i body) c, [Warn_implicit_sync_to_thread])"
  by (simp add: Provide_init_def plain_function_def has_generator_dependency_def
      sync_generator_dependency_def async_generator_dependency_def sync_callable_def
      init_warnings_def fresh_provider_def)

lemma plain_class_init:
  "Provide_init w (class_object i Call_plain new) c None
     = Inr (fresh_provider (class_object i Call_plain new) c, [Warn_implicit_sync_to_thread])"
  by (simp add: Provide_init_def class_object_def has_generator_dependency_def
      sync_generator_dependency_def async_generator_dependency_def sync_callable_def
      init_warnings_def fresh_provider_def)

text \<open>
  C4. Constructing a provider with \<open>use_cache=True\<close> over a generator-based dependency
  (a generator function, an asynchronous generator function, or a class whose \<open>__call__\<close>
  is one) raises \<open>ImproperlyConfiguredException\<close>, whatever \<open>sync_to_thread\<close> is. The
  message is the one of the generator check when the object is callable, and the one of
  the callable check otherwise.
\<close>

theorem cached_generator_rejected:
  assumes "has_generator_dependency dep"
  shows "Provide_init w dep True stt =
           Inl (ImproperlyConfiguredException
                  (if callable dep
                   then ''Cannot cache generator dependency, consider using Lifespan Context instead.''
                   else ''Provider dependency must be a callable value''))"
  using assms by (simp add: Provide_init_def)

theorem cached_generator_rejected_witness:
  "has_generator_dependency (class_object 1 Call_generator (returns (PyObj 7)))
   \<and> has_generator_dependency (generator_function 2 (returns (PyObj 8)))
   \<and> has_generator_dependency (async_generator_function 3 (returns (PyObj 9)))
   \<and> Provide_init (thread_adapter 4) (class_object 1 Call_generator (returns (PyObj 7))) True
         (Some True)
       = Inl (ImproperlyConfiguredException
                ''Cannot cache generator dependency, consider using Lifespan Context instead.'')"
proof -
  have g: "has_generator_dependency (class_object 1 Call_generator (returns (PyObj 7)))"
    by (simp add: has_generator_dependency_def sync_generator_dependency_def class_object_def)
  have c: "callable (class_object 1 Call_generator (returns (PyObj 7)))"
    by (simp add: class_object_def)
  show ?thesis
    using cached_generator_rejected [OF g, of "thread_adapter 4" "Some True"] g c
    by (simp add: has_generator_dependency_def sync_generator_dependency_def
          async_generator_dependency_def generator_function_def async_generator_function_def)
qed

text \<open>
  C6. The claim: for a dependency that is generator-based or already asynchronous, an
  explicit \<open>sync_to_thread\<close> leaves the wrapped dependency object and its classification
  unchanged. The code does not do that for generators: the test that decides the
  wrapping, \<open>sync_to_thread and has_sync_callable\<close>, does not look at the generator
  flags, and a generator function is no asynchronous callable. With \<open>sync_to_thread=True\<close>
  every callable generator-based dependency that \<open>is_async_callable\<close> rejects is warned
  about and then wrapped all the same: the provider stores the adapter and
  \<open>has_sync_callable\<close> becomes false.
\<close>

theorem offload_of_generator_rewraps:
  assumes "callable dep" and "has_generator_dependency dep" and "sync_callable dep"
  shows "Provide_init w dep False (Some True) =
           Inr (\<lparr> dependency = w dep,
                    has_async_generator_dependency = async_generator_dependency dep,
                    has_sync_callable = False,
                    has_sync_generator_dependency = sync_generator_dependency dep,
                    parsed_fn_signature = None, signature_model = None,
                    sync_to_thread = True, use_cache = False,
                    value_slot = Empty_sentinel \<rparr>,
                 [Warn_sync_to_thread_with_generator])"
  using assms by (simp add: Provide_init_def init_warnings_def)

theorem offload_of_generator_rewraps_witness:
  "sync_callable (generator_function 1 (returns (PyObj 5)))
   \<and> Provide_init (thread_adapter 2) (generator_function 1 (returns (PyObj 5))) False (Some True)
       = Inr (\<lparr> dependency = thread_adapter 2 (generator_function 1 (returns (PyObj 5))),
                has_async_generator_dependency = False,
                has_sync_callable = False,
                has_sync_generator_dependency = True,
                parsed_fn_signature = None, signature_model = None,
                sync_to_thread = True, use_cache = False,
                value_slot = Empty_sentinel \<rparr>,
              [Warn_sync_to_thread_with_generator])
   \<and> ident (thread_adapter 2 (generator_function 1 (returns (PyObj 5))))
         \<noteq> ident (generator_function 1 (returns (PyObj 5)))"
proof -
  have c: "callable (generator_function 1 (returns (PyObj 5)))"
    by (simp add: generator_function_def)
  have g: "has_generator_dependency (generator_function 1 (returns (PyObj 5)))"
    by (simp add: has_generator_dependency_def sync_generator_dependency_def
          generator_function_def)
  have s: "sync_callable (generator_function 1 (returns (PyObj 5)))"
    by (simp add: sync_callable_def generator_function_def)
  show ?thesis
    using offload_of_generator_rewraps [OF c g s, of "thread_adapter 2"] s
    by (simp add: sync_generator_dependency_def async_generator_dependency_def
          generator_function_def thread_adapter_def)
qed

text \<open>
  The other half of C6 holds: a dependency that \<open>is_async_callable\<close> accepts (and that is
  no class) is stored as it is, with its classification, whatever the explicit
  \<open>sync_to_thread\<close>; and an explicit \<open>sync_to_thread=False\<close> never wraps anything.
\<close>

lemma offload_of_async_callable_ignored:
  assumes "callable dep" and "\<not> sync_callable dep" and "\<not> (has_generator_dependency dep \<and> cache)"
  shows "\<exists>p ws. Provide_init w dep cache (Some b) = Inr (p, ws) \<and> dependency p = dep
           \<and> has_sync_callable p = sync_callable dep"
  using assms by (simp add: Provide_init_def)

lemma explicit_no_offload_keeps_dependency:
  assumes "Provide_init w dep cache (Some False) = Inr (p, ws)"
  shows "dependency p = dep \<and> has_sync_callable p = sync_callable dep"
  using Provide_init_Inr [OF assms] by simp

text \<open>
  C7. For every class the classification computed by \<open>Provide.__init__\<close> is synchronous:
  \<open>has_sync_callable\<close> is true whatever the class's \<open>__call__\<close> is, so in particular
  whenever \<open>__call__\<close> is neither an asynchronous generator function nor an async
  function. The two generator flags are those of the class's \<open>__call__\<close>, so a class with
  a synchronous \<open>__call__\<close> that is no generator is synchronous and no generator:
  synchronous-plain. The provider stores this classification and the class itself; only
  an explicit \<open>sync_to_thread=True\<close> puts the adapter of \<open>ensure_async_callable\<close> in
  the place of the class and re-classifies the provider as asynchronous, the generator
  flags staying as they are.
\<close>

theorem class_dependency_classified_synchronous:
  assumes "isclass dep"
  shows "sync_callable dep
         \<and> sync_generator_dependency dep = call_isgeneratorfunction dep
         \<and> async_generator_dependency dep = call_isasyncgenfunction dep
         \<and> (\<not> call_isgeneratorfunction dep \<and> \<not> call_isasyncgenfunction dep
              \<longrightarrow> sync_callable dep \<and> \<not> has_generator_dependency dep)
         \<and> (Provide_init w dep cache stt = Inr (p, ws) \<longrightarrow>
              has_sync_generator_dependency p = call_isgeneratorfunction dep
              \<and> has_async_generator_dependency p = call_isasyncgenfunction dep
              \<and> (if stt = Some True
                  then dependency p = w dep \<and> \<not> has_sync_callable p
                  else dependency p = dep \<and> has_sync_callable p))"
proof (intro conjI impI)
  show sc: "sync_callable dep" using assms by (simp add: sync_callable_def)
  show sg: "sync_generator_dependency dep = call_isgeneratorfunction dep"
    using assms by (simp add: sync_generator_dependency_def)
  show ag: "async_generator_dependency dep = call_isasyncgenfunction dep"
    using assms by (simp add: async_generator_dependency_def)
  show "sync_callable dep" by (rule sc)
  show "\<not> has_generator_dependency dep"
    if "\<not> call_isgeneratorfunction dep \<and> \<not> call_isasyncgenfunction dep"
    using that sg ag by (simp add: has_generator_dependency_def)
next
  assume i: "Provide_init w dep cache stt = Inr (p, ws)"
  have sc: "sync_callable dep" using assms by (simp add: sync_callable_def)
  show "has_sync_generator_dependency p = call_isgeneratorfunction dep"
    using Provide_init_Inr [OF i] assms by (simp add: sync_generator_dependency_def)
  show "has_async_generator_dependency p = call_isasyncgenfunction dep"
    using Provide_init_Inr [OF i] assms by (simp add: async_generator_dependency_def)
  show "if stt = Some True
        then dependency p = w dep \<and> \<not> has_sync_callable p
        else dependency p = dep \<and> has_sync_callable p"
    using Provide_init_Inr [OF i] sc by simp
qed

theorem class_dependency_classified_synchronous_witness:
  "isclass (class_object 3 Call_plain (returns (PyObj 5)))
   \<and> sync_callable (class_object 3 Call_plain (returns (PyObj 5)))
   \<and> \<not> has_generator_dependency (class_object 3 Call_plain (returns (PyObj 5)))
   \<and> sync_callable (class_object 4 Call_coroutine (returns (PyObj 6)))
   \<and> Provide_init (thread_adapter 2) (class_object 3 Call_plain (returns (PyObj 5))) False None
       = Inr (fresh_provider (class_object 3 Call_plain (returns (PyObj 5))) False,
              [Warn_implicit_sync_to_thread])
   \<and> dependency (fresh_provider (class_object 3 Call_plain (returns (PyObj 5))) False)
       = class_object 3 Call_plain (returns (PyObj 5))
   \<and> has_sync_callable (fresh_provider (class_object 3 Call_plain (returns (PyObj 5))) False)
   \<and> \<not> has_sync_generator_dependency
         (fresh_provider (class_object 3 Call_plain (returns (PyObj 5))) False)
   \<and> \<not> has_async_generator_dependency
         (fresh_provider (class_object 3 Call_plain (returns (PyObj 5))) False)"
proof -
  let ?C = "class_object 3 Call_plain (returns (PyObj 5))"
  let ?A = "class_object 4 Call_coroutine (returns (PyObj 6))"
  have c: "isclass ?C" by (simp add: class_object_def)
  have a: "isclass ?A" by (simp add: class_object_def)
  have f: "\<not> call_isgeneratorfunction ?C \<and> \<not> call_isasyncgenfunction ?C"
    by (simp add: class_object_def)
  have i: "Provide_init (thread_adapter 2) ?C False None
             = Inr (fresh_provider ?C False, [Warn_implicit_sync_to_thread])"
    by (rule plain_class_init)
  note t = class_dependency_classified_synchronous
             [OF c, of "thread_adapter 2" False None "fresh_provider ?C False"
                "[Warn_implicit_sync_to_thread]"]
  have w1: "sync_callable ?C" using t by blast
  have w2: "\<not> has_generator_dependency ?C" using t f by blast
  have w3: "sync_callable ?A"
    using class_dependency_classified_synchronous [OF a] by blast
  have w4: "dependency (fresh_provider ?C False) = ?C"
    and w5: "has_sync_callable (fresh_provider ?C False)"
    and w6: "\<not> has_sync_generator_dependency (fresh_provider ?C False)"
    and w7: "\<not> has_async_generator_dependency (fresh_provider ?C False)"
    using t i f by simp_all
  from c w1 w2 w3 i w4 w5 w6 w7 show ?thesis by blast
qed

text \<open>
  The explicit thread offload on a class with a plain \<open>__call__\<close>: the adapter is stored
  and the provider is asynchronous from then on.
\<close>

lemma class_offload_reclassifies:
  "Provide_init (thread_adapter 2) (class_object 1 Call_plain (returns (PyObj 5))) False
         (Some True)
       = Inr (\<lparr> dependency = thread_adapter 2 (class_object 1 Call_plain (returns (PyObj 5))),
                has_async_generator_dependency = False,
                has_sync_callable = False,
                has_sync_generator_dependency = False,
                parsed_fn_signature = None, signature_model = None,
                sync_to_thread = True, use_cache = False,
                value_slot = Empty_sentinel \<rparr>, [])"
  by (simp add: Provide_init_def class_object_def has_generator_dependency_def
     sync_generator_dependency_def async_generator_dependency_def sync_callable_def
     init_warnings_def)

subsection \<open>Invocation\<close>

lemma invoke_dependency_value_slot:
  "invoke_dependency (p\<lparr>value_slot := v\<rparr>) kw = invoke_dependency p kw"
  by (simp add: invoke_dependency_def)




text \<open>
  The sentinel is an object a dependency can return: then nothing counts as cached and
  the second invocation calls the dependency again.
\<close>

lemma cache_misses_on_sentinel_result:
  assumes "Provide_init w dep True stt = Inr (p, ws)"
      and "invoke_dependency p kw1 = Inr Empty_sentinel"
  shows "snd (snd (Provide_calls [kw1, kw2] (p, []))) = [kw1, kw2]"
  using Provide_init_fields(1,2) [OF assms(1)] assms(2)
  by (cases "invoke_dependency p kw2") (simp_all add: invoke_dependency_value_slot)




subsection \<open>Equality\<close>

lemma Provide_eq_unfold:
  "Provide_eq (a, p) (ProvideObj b q) =
     (b = a \<or>
      (ident (dependency q) = ident (dependency p)
       \<and> use_cache q = use_cache p
       \<and> ((value_slot q = Empty_sentinel) = (value_slot p = Empty_sentinel))
       \<and> (value_slot q \<noteq> Empty_sentinel \<and> value_slot p \<noteq> Empty_sentinel
            \<longrightarrow> value_slot q = value_slot p)))"
  by auto

text \<open>
  C8, as the code has it. Two providers are equal when they are the same instance, or
  when they wrap the same dependency object, have the same cache flag and hold equal
  slots: both unset, or both resolved to equal values. A provider that has resolved a
  value never equals one that has not. For two freshly constructed providers that are not
  the same instance, equality is exactly: the same stored dependency object and the same
  cache flag.
\<close>

theorem Provide_eq_compares_slots:
  assumes "Provide_init w f c s = Inr (p, ws)" and "Provide_init w' f' c' s' = Inr (q, ws')"
  shows "Provide_eq (a, x) (ProvideObj b y) =
           (b = a \<or>
            (ident (dependency y) = ident (dependency x)
             \<and> use_cache y = use_cache x
             \<and> ((value_slot y = Empty_sentinel) = (value_slot x = Empty_sentinel))
             \<and> (value_slot y \<noteq> Empty_sentinel \<and> value_slot x \<noteq> Empty_sentinel
                  \<longrightarrow> value_slot y = value_slot x)))
         \<and> Provide_eq (a, p) (ProvideObj b q) =
             (b = a \<or> (ident (dependency q) = ident (dependency p) \<and> c' = c))"
proof (intro conjI)
  show "Provide_eq (a, x) (ProvideObj b y) =
           (b = a \<or>
            (ident (dependency y) = ident (dependency x)
             \<and> use_cache y = use_cache x
             \<and> ((value_slot y = Empty_sentinel) = (value_slot x = Empty_sentinel))
             \<and> (value_slot y \<noteq> Empty_sentinel \<and> value_slot x \<noteq> Empty_sentinel
                  \<longrightarrow> value_slot y = value_slot x)))"
    by (rule Provide_eq_unfold)
  show "Provide_eq (a, p) (ProvideObj b q) =
             (b = a \<or> (ident (dependency q) = ident (dependency p) \<and> c' = c))"
    using Provide_init_fields(1,2) [OF assms(1)] Provide_init_fields(1,2) [OF assms(2)]
    by simp
qed

theorem Provide_eq_compares_slots_witness:
  "Provide_eq (10, fresh_provider five True) (ProvideObj 11 (fresh_provider five True))
   \<and> \<not> Provide_eq (10, fresh_provider five True) (ProvideObj 11 (fresh_provider five False))
   \<and> \<not> Provide_eq (10, fresh_provider five True)
         (ProvideObj 11 (fresh_provider (plain_function 2 (returns (PyInt 5))) True))"
proof -
  have i: "Provide_init (thread_adapter 9) five c None
             = Inr (fresh_provider five c, [Warn_implicit_sync_to_thread])" for c
    unfolding five_def by (rule plain_function_init)
  have j: "Provide_init (thread_adapter 9) (plain_function 2 (returns (PyInt 5))) True None
             = Inr (fresh_provider (plain_function 2 (returns (PyInt 5))) True,
                    [Warn_implicit_sync_to_thread])"
    by (rule plain_function_init)
  have d: "ident (dependency (fresh_provider g c)) = ident g" for g c
    by (simp add: fresh_provider_def)
  have k: "ident five = 1" "ident (plain_function 2 (returns (PyInt 5))) = 2"
    by (simp_all add: five_def plain_function_def)
  from Provide_eq_compares_slots [OF i [of True] i [of True], of 10 _ 11, THEN conjunct2]
  have e1: "Provide_eq (10, fresh_provider five True) (ProvideObj 11 (fresh_provider five True))"
    by (simp del: Provide_eq.simps)
  from Provide_eq_compares_slots [OF i [of True] i [of False], of 10 _ 11, THEN conjunct2]
  have e2: "\<not> Provide_eq (10, fresh_provider five True) (ProvideObj 11 (fresh_provider five False))"
    by (simp del: Provide_eq.simps)
  from Provide_eq_compares_slots [OF i [of True] j, of 10 _ 11, THEN conjunct2]
  have e3: "\<not> Provide_eq (10, fresh_provider five True)
         (ProvideObj 11 (fresh_provider (plain_function 2 (returns (PyInt 5))) True))"
    by (simp del: Provide_eq.simps add: d k)
  from e1 e2 e3 show ?thesis by blast
qed

text \<open>
  C8 as it is worded fails. Two providers wrap the same function with the same cache
  flag; one has been invoked once and holds 5, the other is fresh. Only one of them has
  resolved a cached value, so the wording makes them equal; \<open>__eq__\<close> compares the slots
  and makes them unequal.
\<close>

theorem Provide_eq_counterexample:
  "Provide_init (thread_adapter 9) five True None
     = Inr (fresh_provider five True, [Warn_implicit_sync_to_thread])
   \<and> Provide_call [] (fresh_provider five True, [])
       = (Inr (PyInt 5), ((fresh_provider five True)\<lparr>value_slot := PyInt 5\<rparr>, [[]]))
   \<and> spec_Provide_eq (10, fresh_provider five True)
         (11, (fresh_provider five True)\<lparr>value_slot := PyInt 5\<rparr>)
   \<and> \<not> Provide_eq (10, fresh_provider five True)
         (ProvideObj 11 ((fresh_provider five True)\<lparr>value_slot := PyInt 5\<rparr>))"
  by (simp add: Provide_init_def five_def plain_function_def has_generator_dependency_def
     sync_generator_dependency_def async_generator_dependency_def sync_callable_def
     init_warnings_def spec_Provide_eq_def invoke_dependency_def returns_def fresh_provider_def)

subsection \<open>Finalisation\<close>

lemma create_signature_model_noop:
  "signature_model (fst s) \<noteq> None \<Longrightarrow> create_signature_model c ks dd td s = (None, s)"
  by (auto simp: create_signature_model_def)

lemma create_signature_model_resolved:
  "fst (create_signature_model c ks dd td s) = None \<Longrightarrow>
     signature_model (fst (snd (create_signature_model c ks dd td s))) \<noteq> None
     \<and> Provide.parsed_fn_signature (fst (snd (create_signature_model c ks dd td s)))
         = Provide.parsed_fn_signature (fst s)"
  by (cases "signature_model (fst s)";
      cases "create c ks (dependency (fst s)) (Provide.parsed_fn_signature (fst s)) dd td")
     (simp_all add: create_signature_model_def)

lemma finalize_noop:
  assumes "Provide.parsed_fn_signature (fst s) \<noteq> None" and "signature_model (fst s) \<noteq> None"
  shows "finalize c a s = (None, s)"
proof -
  obtain pl ns ks dd td where a: "a = (pl, ns, ks, dd, td)" by (cases a) auto
  obtain p log where s: "s = (p, log)" by (cases s) auto
  from assms obtain sig where sig: "Provide.parsed_fn_signature p = Some sig"
    by (auto simp: s)
  have "create_signature_model c ks dd td (p, log) = (None, (p, log))"
    using assms(2) by (intro create_signature_model_noop) (simp add: s)
  then show ?thesis by (simp add: a s sig)
qed

lemma finalize_resolved:
  assumes "fst (finalize c a s) = None"
  shows "Provide.parsed_fn_signature (fst (snd (finalize c a s))) \<noteq> None
         \<and> signature_model (fst (snd (finalize c a s))) \<noteq> None"
proof -
  obtain pl ns ks dd td where a: "a = (pl, ns, ks, dd, td)" by (cases a) auto
  obtain p log where s: "s = (p, log)" by (cases s) auto
  show ?thesis
  proof (cases "Provide.parsed_fn_signature p = None")
    case False
    then obtain sig where sig: "Provide.parsed_fn_signature p = Some sig" by auto
    have "finalize c a s = create_signature_model c ks dd td (p, log)"
      by (simp add: a s sig)
    then show ?thesis using assms create_signature_model_resolved [of c ks dd td "(p, log)"]
      by (simp add: sig)
  next
    case True
    obtain r started where r: "parse_dependency_signature c pl ns p = (r, started)"
      by (cases "parse_dependency_signature c pl ns p") auto
    show ?thesis
    proof (cases r)
      case (Inl e)
      then show ?thesis using assms True r by (simp add: a s)
    next
      case (Inr sig)
      have "finalize c a s = create_signature_model c ks dd td
              (p\<lparr>Provide.parsed_fn_signature := Some sig\<rparr>, log @ started)"
        using True r Inr by (simp add: a s)
      then show ?thesis
        using assms
          create_signature_model_resolved
            [of c ks dd td "(p\<lparr>Provide.parsed_fn_signature := Some sig\<rparr>, log @ started)"]
        by simp
    qed
  qed
qed

lemma finalize_all_noop:
  assumes "Provide.parsed_fn_signature (fst s) \<noteq> None" and "signature_model (fst s) \<noteq> None"
  shows "finalize_all c as s = (replicate (length as) None, s)"
  using assms by (induction as) (simp_all add: finalize_noop)

text \<open>
  C9. Once a call of \<open>finalize\<close> has returned, any number of further calls, with any
  arguments, return without an exception and leave the state as that first call left it:
  the provider, with both fields, and the log of the computations started, so nothing
  is computed again.
\<close>

theorem finalize_idempotent:
  assumes "fst (finalize c a s) = None"
  shows "finalize_all c as (snd (finalize c a s))
           = (replicate (length as) None, snd (finalize c a s))"
  using finalize_resolved [OF assms] by (intro finalize_all_noop) simp_all

lemma stub_finalize:
  "finalize stub_collaborators no_kwargs (fresh_provider five False, [])
     = (None,
        ((fresh_provider five False)
           \<lparr> Provide.parsed_fn_signature :=
               Some \<lparr> ParsedSignature.parameters = Map.empty,
                      return_type_is_subclass_of_NoneType = False \<rparr>,
             signature_model := Some 42 \<rparr>,
         [Called_unwrap_partial, Called_from_fn, Called_create]))"
  by (simp add: no_kwargs_def stub_collaborators_def fresh_provider_def
      parse_dependency_signature_def create_signature_model_def)

theorem finalize_idempotent_witness:
  "fst (finalize stub_collaborators no_kwargs (fresh_provider five False, [])) = None
   \<and> snd (snd (finalize stub_collaborators no_kwargs (fresh_provider five False, [])))
       = [Called_unwrap_partial, Called_from_fn, Called_create]
   \<and> finalize_all stub_collaborators [no_kwargs, (None, [''x'' \<mapsto> 1], {''k''}, Some 3, [4])]
         (snd (finalize stub_collaborators no_kwargs (fresh_provider five False, [])))
       = ([None, None],
          snd (finalize stub_collaborators no_kwargs (fresh_provider five False, [])))"
proof -
  have ok: "fst (finalize stub_collaborators no_kwargs (fresh_provider five False, [])) = None"
    by (simp add: stub_finalize)
  have lg: "snd (snd (finalize stub_collaborators no_kwargs (fresh_provider five False, [])))
       = [Called_unwrap_partial, Called_from_fn, Called_create]"
    by (simp add: stub_finalize)
  from finalize_idempotent [OF ok, of "[no_kwargs, (None, [''x'' \<mapsto> 1], {''k''}, Some 3, [4])]"]
  have "finalize_all stub_collaborators [no_kwargs, (None, [''x'' \<mapsto> 1], {''k''}, Some 3, [4])]
         (snd (finalize stub_collaborators no_kwargs (fresh_provider five False, [])))
       = ([None, None],
          snd (finalize stub_collaborators no_kwargs (fresh_provider five False, [])))"
    by (simp del: finalize_all.simps finalize.simps add: numeral_2_eq_2)
  with ok lg show ?thesis by blast
qed

section \<open>Properties of the ASGI route handler\<close>

lemma example_handler_fields:
  "fn (example_handler f gs) = f"
  "ASGIRouteHandler.guards (example_handler f gs) = gs"
  "paths (example_handler f gs) = [''/child'']"
  by (simp_all add: example_handler_def ASGIRouteHandler_init_def)

subsection \<open>Validation\<close>

text \<open>
  C2. When the validation of the base class passes, the validation of an ASGI handler
  passes exactly when the parsed return type is \<open>None\<close>, the parsed parameters hold the
  three names \<open>scope\<close>, \<open>send\<close> and \<open>receive\<close>, and the function is an asynchronous
  callable. When one of the three conditions fails, the validation raises
  \<open>ImproperlyConfiguredException\<close>, and it fails whatever the base validation did.
\<close>

theorem asgi_validation_exact:
  "(validate_handler_function None sig self = None) =
     (return_type_is_subclass_of_NoneType sig
      \<and> (\<forall>key \<in> {''scope'', ''send'', ''receive''}. key \<in> dom (ParsedSignature.parameters sig))
      \<and> is_async_callable (fn self))
   \<and> (\<not> return_type_is_subclass_of_NoneType sig
        \<or> (\<exists>key \<in> {''scope'', ''send'', ''receive''}. key \<notin> dom (ParsedSignature.parameters sig))
        \<or> \<not> is_async_callable (fn self)
      \<longrightarrow> (\<exists>msg. validate_handler_function None sig self = Some (ImproperlyConfiguredException msg))
          \<and> validate_handler_function base sig self \<noteq> None)"
  by (cases base) (auto simp: validate_handler_function_def)

theorem asgi_validation_exact_witness:
  "validate_handler_function None asgi_signature
     (example_handler (coroutine_function 7 (returns PyNone)) []) = None
   \<and> validate_handler_function None asgi_signature
       (example_handler (plain_function 8 (returns PyNone)) []) \<noteq> None
   \<and> validate_handler_function None
       (asgi_signature\<lparr>ParsedSignature.parameters := [''scope'' \<mapsto> 1, ''receive'' \<mapsto> 2]\<rparr>)
       (example_handler (coroutine_function 7 (returns PyNone)) []) \<noteq> None
   \<and> validate_handler_function None
       (asgi_signature\<lparr>return_type_is_subclass_of_NoneType := False\<rparr>)
       (example_handler (coroutine_function 7 (returns PyNone)) []) \<noteq> None"
proof -
  have a: "is_async_callable (fn (example_handler (coroutine_function 7 (returns PyNone)) []))"
    by (simp add: example_handler_fields coroutine_function_def)
  have b: "\<not> is_async_callable (fn (example_handler (plain_function 8 (returns PyNone)) []))"
    by (simp add: example_handler_fields plain_function_def)
  have r: "return_type_is_subclass_of_NoneType asgi_signature"
    by (simp add: asgi_signature_def)
  have k: "\<forall>key \<in> {''scope'', ''send'', ''receive''}.
             key \<in> dom (ParsedSignature.parameters asgi_signature)"
    by (simp add: asgi_signature_def)
  have m: "\<exists>key \<in> {''scope'', ''send'', ''receive''}.
             key \<notin> dom (ParsedSignature.parameters
               (asgi_signature\<lparr>ParsedSignature.parameters := [''scope'' \<mapsto> 1, ''receive'' \<mapsto> 2]\<rparr>))"
    by simp
  have n: "\<not> return_type_is_subclass_of_NoneType
               (asgi_signature\<lparr>return_type_is_subclass_of_NoneType := False\<rparr>)"
    by simp
  from asgi_validation_exact
         [of asgi_signature "example_handler (coroutine_function 7 (returns PyNone)) []" None]
       a r k
  have w1: "validate_handler_function None asgi_signature
     (example_handler (coroutine_function 7 (returns PyNone)) []) = None"
    by blast
  from asgi_validation_exact
         [of asgi_signature "example_handler (plain_function 8 (returns PyNone)) []" None] b
  have w2: "validate_handler_function None asgi_signature
       (example_handler (plain_function 8 (returns PyNone)) []) \<noteq> None"
    by blast
  from asgi_validation_exact
         [of "asgi_signature\<lparr>ParsedSignature.parameters := [''scope'' \<mapsto> 1, ''receive'' \<mapsto> 2]\<rparr>"
             "example_handler (coroutine_function 7 (returns PyNone)) []" None] m
  have w3: "validate_handler_function None
       (asgi_signature\<lparr>ParsedSignature.parameters := [''scope'' \<mapsto> 1, ''receive'' \<mapsto> 2]\<rparr>)
       (example_handler (coroutine_function 7 (returns PyNone)) []) \<noteq> None"
    by blast
  from asgi_validation_exact
         [of "asgi_signature\<lparr>return_type_is_subclass_of_NoneType := False\<rparr>"
             "example_handler (coroutine_function 7 (returns PyNone)) []" None] n
  have w4: "validate_handler_function None
       (asgi_signature\<lparr>return_type_is_subclass_of_NoneType := False\<rparr>)
       (example_handler (coroutine_function 7 (returns PyNone)) []) \<noteq> None"
    by blast
  from w1 w2 w3 w4 show ?thesis by blast
qed

subsection \<open>Dispatch\<close>






subsection \<open>Merge\<close>

lemma merge_fields:
  "paths (merge j v self other) = map (\<lambda>p. j [Router.path other, p]) (paths self)"
  "ASGIRouteHandler.dependencies (merge j v self other)
     = or_empty_dict (Router.dependencies other) ++ ASGIRouteHandler.dependencies self"
  "ASGIRouteHandler.exception_handlers (merge j v self other)
     = or_empty_dict (Router.exception_handlers other) ++ ASGIRouteHandler.exception_handlers self"
  "ASGIRouteHandler.opt (merge j v self other)
     = or_empty_dict (Router.opt other) ++ ASGIRouteHandler.opt self"
  "ASGIRouteHandler.signature_namespace (merge j v self other)
     = Router.signature_namespace other ++ ASGIRouteHandler.signature_namespace self"
  "ASGIRouteHandler.type_encoders (merge j v self other)
     = or_empty_dict (Router.type_encoders other) ++ ASGIRouteHandler.type_encoders self"
  "ASGIRouteHandler.parameters (merge j v self other)
     = Router.parameters other ++ ASGIRouteHandler.parameters self"
  "ASGIRouteHandler.guards (merge j v self other)
     = or_empty_list (Router.guards other) @ ASGIRouteHandler.guards self"
  "ASGIRouteHandler.middleware (merge j v self other)
     = or_empty_list (Router.middleware other) @ ASGIRouteHandler.middleware self"
  "ASGIRouteHandler.type_decoders (merge j v self other)
     = or_empty_list (Router.type_decoders other) @ ASGIRouteHandler.type_decoders self"
  by (simp_all add: merge_def ASGIRouteHandler_init_def)

lemma child_wins: "(m ++ n) k = (case n k of Some x \<Rightarrow> Some x | None \<Rightarrow> m k)"
  by (simp add: map_add_def split: option.splits)

lemma merge_on_heap_frame:
  assumes "heap_ok h" and "objects h self_ref = Some (Handler_object self)"
      and "objects h other_ref = Some (Scope_object other)"
  shows "\<exists>h'. merge_on_heap j v self_ref other_ref h = Some (next_free h, h')
           \<and> objects h' (next_free h) = Some (Handler_object (merge j v self other))
           \<and> objects h' self_ref = Some (Handler_object self)
           \<and> objects h' other_ref = Some (Scope_object other)
           \<and> (\<forall>a \<in> dom (objects h). objects h' a = objects h a)"
proof -
  have fresh: "next_free h \<notin> dom (objects h)"
    using assms(1) by (auto simp: heap_ok_def)
  then have "self_ref \<noteq> next_free h" and "other_ref \<noteq> next_free h"
    using assms(2,3) by auto
  then show ?thesis
    using assms(2,3) fresh by (auto simp: merge_on_heap_def)
qed

text \<open>
  C5. The handler that \<open>merge\<close> returns has, as paths, the path of the parent joined with
  each path of the child, parent first, in the order of the child's paths (the product
  of the parent's one path with the child's paths); in each mapping an entry of the child
  where the child has the key and the entry of the parent otherwise; in each sequence the
  entries of the parent followed by those of the child. On a well-formed heap the merge
  allocates the new handler at a fresh address and leaves every object that was there,
  the child and the parent among them, as it was.
\<close>

theorem merge_combines_configuration:
  assumes "heap_ok h" and "objects h self_ref = Some (Handler_object self)"
      and "objects h other_ref = Some (Scope_object other)"
  shows "paths (merge j v self other)
           = concat (map (\<lambda>q. map (\<lambda>p. j [q, p]) (paths self)) [Router.path other])
       \<and> (\<forall>k. ASGIRouteHandler.dependencies (merge j v self other) k
               = (case ASGIRouteHandler.dependencies self k of
                    Some x \<Rightarrow> Some x | None \<Rightarrow> or_empty_dict (Router.dependencies other) k))
       \<and> (\<forall>k. ASGIRouteHandler.exception_handlers (merge j v self other) k
               = (case ASGIRouteHandler.exception_handlers self k of
                    Some x \<Rightarrow> Some x
                  | None \<Rightarrow> or_empty_dict (Router.exception_handlers other) k))
       \<and> (\<forall>k. ASGIRouteHandler.opt (merge j v self other) k
               = (case ASGIRouteHandler.opt self k of
                    Some x \<Rightarrow> Some x | None \<Rightarrow> or_empty_dict (Router.opt other) k))
       \<and> (\<forall>k. ASGIRouteHandler.signature_namespace (merge j v self other) k
               = (case ASGIRouteHandler.signature_namespace self k of
                    Some x \<Rightarrow> Some x | None \<Rightarrow> Router.signature_namespace other k))
       \<and> (\<forall>k. ASGIRouteHandler.type_encoders (merge j v self other) k
               = (case ASGIRouteHandler.type_encoders self k of
                    Some x \<Rightarrow> Some x | None \<Rightarrow> or_empty_dict (Router.type_encoders other) k))
       \<and> (\<forall>k. ASGIRouteHandler.parameters (merge j v self other) k
               = (case ASGIRouteHandler.parameters self k of
                    Some x \<Rightarrow> Some x | None \<Rightarrow> Router.parameters other k))
       \<and> ASGIRouteHandler.guards (merge j v self other)
           = or_empty_list (Router.guards other) @ ASGIRouteHandler.guards self
       \<and> ASGIRouteHandler.middleware (merge j v self other)
           = or_empty_list (Router.middleware other) @ ASGIRouteHandler.middleware self
       \<and> ASGIRouteHandler.type_decoders (merge j v self other)
           = or_empty_list (Router.type_decoders other) @ ASGIRouteHandler.type_decoders self
       \<and> (\<exists>h'. merge_on_heap j v self_ref other_ref h = Some (next_free h, h')
             \<and> objects h' (next_free h) = Some (Handler_object (merge j v self other))
             \<and> objects h' self_ref = Some (Handler_object self)
             \<and> objects h' other_ref = Some (Scope_object other)
             \<and> (\<forall>a \<in> dom (objects h). objects h' a = objects h a))"
  using merge_on_heap_frame [OF assms, of j v]
  by (simp add: merge_fields child_wins)

theorem merge_combines_configuration_witness:
  "paths (merge concat default_if_empty (example_handler five [allow]) example_router)
     = [''/parent/child'']
   \<and> ASGIRouteHandler.dependencies
       (merge concat default_if_empty (example_handler five [allow]) example_router) ''db''
       = Some 1
   \<and> ASGIRouteHandler.dependencies
       (merge concat default_if_empty (example_handler five [allow]) example_router) ''cache''
       = Some 3
   \<and> ASGIRouteHandler.opt
       (merge concat default_if_empty (example_handler five [allow]) example_router) ''tag''
       = Some (PyStr ''child'')
   \<and> ASGIRouteHandler.middleware
       (merge concat default_if_empty (example_handler five [allow]) example_router)
       = [10, 20]
   \<and> (\<exists>h'. merge_on_heap concat default_if_empty 0 1 (example_heap (example_handler five [allow]))
              = Some (2, h')
          \<and> objects h' 0 = Some (Handler_object (example_handler five [allow]))
          \<and> objects h' 1 = Some (Scope_object example_router))"
proof -
  let ?child = "example_handler five [allow]"
  have ok: "heap_ok (example_heap ?child)"
    by (simp add: heap_ok_def example_heap_def)
  have s: "objects (example_heap ?child) 0 = Some (Handler_object ?child)"
    by (simp add: example_heap_def)
  have r: "objects (example_heap ?child) 1 = Some (Scope_object example_router)"
    by (simp add: example_heap_def)
  have n: "next_free (example_heap ?child) = 2"
    by (simp add: example_heap_def)
  note m = merge_combines_configuration [OF ok s r, of concat default_if_empty]
  have w1: "paths (merge concat default_if_empty ?child example_router) = [''/parent/child'']"
    using m by (simp add: example_handler_def ASGIRouteHandler_init_def example_router_def)
  have w2: "ASGIRouteHandler.dependencies
       (merge concat default_if_empty ?child example_router) ''db'' = Some 1"
    using m by (simp add: example_handler_def ASGIRouteHandler_init_def)
  have w3: "ASGIRouteHandler.dependencies
       (merge concat default_if_empty ?child example_router) ''cache'' = Some 3"
    using m
    by (simp add: example_handler_def ASGIRouteHandler_init_def example_router_def
          or_empty_dict_def)
  have w4: "ASGIRouteHandler.opt
       (merge concat default_if_empty ?child example_router) ''tag'' = Some (PyStr ''child'')"
    using m by (simp add: example_handler_def ASGIRouteHandler_init_def)
  have w5: "ASGIRouteHandler.middleware
       (merge concat default_if_empty ?child example_router) = [10, 20]"
    using m
    by (simp add: example_handler_def ASGIRouteHandler_init_def example_router_def
          or_empty_list_def)
  have w6: "\<exists>h'. merge_on_heap concat default_if_empty 0 1 (example_heap ?child) = Some (2, h')
          \<and> objects h' 0 = Some (Handler_object ?child)
          \<and> objects h' 1 = Some (Scope_object example_router)"
    using m n by auto
  from w1 w2 w3 w4 w5 w6 show ?thesis by blast
qed


end
